theory Spec2Isabelle
  imports Main
begin

section \<open>JavaScript built-ins used by the scoreboard\<close>

text \<open>
  JavaScript numbers are modelled as unbounded integers: every number the scoreboard
  handles is an integer, and arithmetic on them is exact as long as it stays inside the
  safe-integer range of a double. \<open>NaN\<close> and \<open>undefined\<close> are the value \<open>None\<close> of an
  option type. A \<open>char\<close> stands for a UTF-16 code unit below 256.
\<close>

subsection \<open>Strings: \<open>trim\<close>, \<open>split\<close>, \<open>join\<close>\<close>

text \<open>White space and line terminators of ECMAScript in the range of \<open>char\<close>:
  TAB, LF, VT, FF, CR, SP and NBSP.\<close>

definition is_ws :: "char \<Rightarrow> bool" where
  "is_ws c = (of_char c \<in> set [9, 10, 11, 12, 13, 32, 160 :: nat])"

definition trim :: "string \<Rightarrow> string" where
  "trim s = rev (dropWhile is_ws (rev (dropWhile is_ws s)))"

text \<open>\<open>s.split(sep)\<close> for a one-character separator: never an empty array; the empty
  string gives one empty piece.\<close>

fun split_on :: "char \<Rightarrow> string \<Rightarrow> string list" where
  "split_on sep [] = [[]]"
| "split_on sep (c # cs) =
     (if c = sep then [] # split_on sep cs
      else (c # hd (split_on sep cs)) # tl (split_on sep cs))"

text \<open>\<open>xs.join(sep)\<close>.\<close>

fun join :: "string \<Rightarrow> string list \<Rightarrow> string" where
  "join sep [] = []"
| "join sep [x] = x"
| "join sep (x # y # zs) = x @ sep @ join sep (y # zs)"

text \<open>\<open>xs[i]\<close>: \<open>undefined\<close> out of range.\<close>

definition nth_opt :: "'a list \<Rightarrow> nat \<Rightarrow> 'a option" where
  "nth_opt xs i = (if i < length xs then Some (xs ! i) else None)"

subsection \<open>Numbers: \<open>String(n)\<close> and \<open>parseInt\<close>\<close>

text \<open>\<open>String(n)\<close> of an integer is its decimal numeral, with a minus sign when it is
  negative.\<close>

definition digit_char :: "nat \<Rightarrow> char" where
  "digit_char d = ''0123456789'' ! d"

fun show_nat :: "nat \<Rightarrow> string" where
  "show_nat n =
     (if n < 10 then [digit_char n]
      else show_nat (n div 10) @ [digit_char (n mod 10)])"

declare show_nat.simps [simp del]

definition show_int :: "int \<Rightarrow> string" where
  "show_int n = (if n < 0 then CHR ''-'' # show_nat (nat (- n)) else show_nat (nat n))"


text \<open>The value of a digit: \<open>0\<close> to \<open>9\<close>, and \<open>a\<close> to \<open>f\<close> in either case for the
  hexadecimal digits.\<close>

definition digit_value :: "char \<Rightarrow> nat option" where
  "digit_value c =
     (let n = of_char c :: nat in
      if 48 \<le> n \<and> n \<le> 57 then Some (n - 48)
      else if 97 \<le> n \<and> n \<le> 102 then Some (n - 87)
      else if 65 \<le> n \<and> n \<le> 70 then Some (n - 55)
      else None)"

definition is_radix_digit :: "nat \<Rightarrow> char \<Rightarrow> bool" where
  "is_radix_digit R c = (case digit_value c of None \<Rightarrow> False | Some d \<Rightarrow> d < R)"

definition digits_value :: "nat \<Rightarrow> string \<Rightarrow> nat" where
  "digits_value R z = foldl (\<lambda>acc c. acc * R + the (digit_value c)) 0 z"

text \<open>
  \<open>parseInt(s)\<close> with no radix: leading white space is skipped, one sign is read, a
  prefix \<open>0x\<close> or \<open>0X\<close> selects radix 16, and the longest run of digits of the radix is
  the number; with no digit the result is \<open>NaN\<close>.
\<close>

definition parseInt :: "string \<Rightarrow> int option" where
  "parseInt inputString =
     (let s = dropWhile is_ws inputString;
          sign = (if s \<noteq> [] \<and> hd s = CHR ''-'' then - 1 else 1 :: int);
          s1 = (if s \<noteq> [] \<and> (hd s = CHR ''+'' \<or> hd s = CHR ''-'') then tl s else s);
          hex = (take 2 s1 = ''0x'' \<or> take 2 s1 = ''0X'');
          R = (if hex then 16 else 10);
          s2 = (if hex then drop 2 s1 else s1);
          z = takeWhile (is_radix_digit R) s2
      in if z = [] then None else Some (sign * int (digits_value R z)))"

text \<open>\<open>x || d\<close> on a number: \<open>NaN\<close> and \<open>0\<close> are falsy.\<close>

definition num_or :: "int option \<Rightarrow> int \<Rightarrow> int" where
  "num_or x d = (case x of None \<Rightarrow> d | Some n \<Rightarrow> if n = 0 then d else n)"

text \<open>\<open>x || d\<close> on a string that may be \<open>null\<close>: \<open>null\<close> and the empty string are
  falsy.\<close>

definition str_or :: "string option \<Rightarrow> string \<Rightarrow> string" where
  "str_or x d = (case x of None \<Rightarrow> d | Some s \<Rightarrow> if s = [] then d else s)"

definition bool_string :: "bool \<Rightarrow> string" where
  "bool_string b = (if b then ''true'' else ''false'')"

section \<open>Game presets (games.js)\<close>

definition calculateScore :: "int \<Rightarrow> int \<Rightarrow> int" where
  "calculateScore bid tricks =
     (if bid = tricks then bid + 10 else - \<bar>bid - tricks\<bar> * 2)"

definition calculatePosition :: "int \<Rightarrow> int" where
  "calculatePosition score = min score 121"

definition checkWin :: "int \<Rightarrow> bool" where
  "checkWin score = (score \<ge> 121)"

section \<open>The state container (script.js)\<close>

subsection \<open>Data\<close>

text \<open>One round of a player: each of \<open>bid\<close>, \<open>tricks\<close> and \<open>score\<close> may be absent.\<close>

record RoundEntry =
  bid :: "int option"
  tricks :: "int option"
  roundScore :: "int option"

text \<open>A player object. \<open>roundData\<close> is an object keyed by round number.\<close>

record Player =
  id' :: string
  name :: string
  score :: int
  position :: int
  roundData :: "int \<rightharpoonup> RoundEntry"

record Settings =
  colorTheme :: string
  showRounds :: bool
  numberOfRounds :: int
  showBids :: bool
  showTricks :: bool
  showDeal :: bool

text \<open>
  The fields of a \<open>GameState\<close> object. The list of observers is left out: observers
  are rendering callbacks, and \<open>notify\<close> calls them and schedules the writes to local
  storage and to the address bar, none of which changes a field below.
\<close>

record GameState =
  players :: "Player list"
  gameMode :: string
  settings :: Settings
  currentRound :: int
  rounds :: "RoundEntry list"

text \<open>Objects with optional fields: the argument of \<open>updatePlayer\<close>, a partial settings
  object, and the data handed to \<open>fromJSON\<close>. An absent field is \<open>None\<close>.\<close>

record PlayerUpdates =
  u_id :: "string option"
  u_name :: "string option"
  u_score :: "int option"
  u_position :: "int option"
  u_roundData :: "(int \<rightharpoonup> RoundEntry) option"

record SettingsUpdates =
  u_colorTheme :: "string option"
  u_showRounds :: "bool option"
  u_numberOfRounds :: "int option"
  u_showBids :: "bool option"
  u_showTricks :: "bool option"
  u_showDeal :: "bool option"

record Snapshot =
  s_players :: "Player list option"
  s_gameMode :: "string option"
  s_settings :: "SettingsUpdates option"
  s_currentRound :: "int option"
  s_rounds :: "RoundEntry list option"

text \<open>A settings object with all six fields, seen as a partial one.\<close>

definition all_fields :: "Settings \<Rightarrow> SettingsUpdates" where
  "all_fields st =
     \<lparr>u_colorTheme = Some (colorTheme st), u_showRounds = Some (showRounds st),
      u_numberOfRounds = Some (numberOfRounds st), u_showBids = Some (showBids st),
      u_showTricks = Some (showTricks st), u_showDeal = Some (showDeal st)\<rparr>"

subsection \<open>\<open>Object.assign\<close> on the three kinds of object\<close>

definition or_else :: "'a option \<Rightarrow> 'a \<Rightarrow> 'a" where
  "or_else x d = (case x of None \<Rightarrow> d | Some v \<Rightarrow> v)"

definition assignPlayer :: "Player \<Rightarrow> PlayerUpdates \<Rightarrow> Player" where
  "assignPlayer p u =
     \<lparr>id' = or_else (u_id u) (id' p), name = or_else (u_name u) (name p),
      score = or_else (u_score u) (score p), position = or_else (u_position u) (position p),
      roundData = or_else (u_roundData u) (roundData p)\<rparr>"

definition assignSettings :: "Settings \<Rightarrow> SettingsUpdates \<Rightarrow> Settings" where
  "assignSettings st u =
     \<lparr>colorTheme = or_else (u_colorTheme u) (colorTheme st),
      showRounds = or_else (u_showRounds u) (showRounds st),
      numberOfRounds = or_else (u_numberOfRounds u) (numberOfRounds st),
      showBids = or_else (u_showBids u) (showBids st),
      showTricks = or_else (u_showTricks u) (showTricks st),
      showDeal = or_else (u_showDeal u) (showDeal st)\<rparr>"

definition assignRound :: "RoundEntry \<Rightarrow> RoundEntry \<Rightarrow> RoundEntry" where
  "assignRound e d =
     \<lparr>bid = (case bid d of None \<Rightarrow> bid e | Some b \<Rightarrow> Some b),
      tricks = (case tricks d of None \<Rightarrow> tricks e | Some t \<Rightarrow> Some t),
      roundScore = (case roundScore d of None \<Rightarrow> roundScore e | Some v \<Rightarrow> Some v)\<rparr>"

subsection \<open>The constructor\<close>

definition newGameState :: GameState where
  "newGameState =
     \<lparr>players = [], gameMode = ''custom'',
      settings = \<lparr>colorTheme = ''purple'', showRounds = True, numberOfRounds = 10,
                  showBids = True, showTricks = True, showDeal = True\<rparr>,
      currentRound = 1, rounds = []\<rparr>"

subsection \<open>Player management\<close>

text \<open>
  \<open>this.players.find(p => p.id === playerId)\<close> followed by a mutation of the player
  found: the first player with the id is changed, and the state is unchanged when there
  is none.
\<close>

fun update_first :: "('a \<Rightarrow> bool) \<Rightarrow> ('a \<Rightarrow> 'a) \<Rightarrow> 'a list \<Rightarrow> 'a list" where
  "update_first P f [] = []"
| "update_first P f (x # xs) = (if P x then f x # xs else x # update_first P f xs)"

definition findPlayer :: "GameState \<Rightarrow> string \<Rightarrow> Player option" where
  "findPlayer s playerId = find (\<lambda>p. id' p = playerId) (players s)"

text \<open>The module-level \<open>playerIdCounter\<close> is passed in and returned.\<close>

definition addPlayer :: "GameState \<Rightarrow> int \<Rightarrow> string option \<Rightarrow> Player \<times> GameState \<times> int" where
  "addPlayer s playerIdCounter nm =
     (let playerName = str_or nm (''Player '' @ show_int (int (length (players s)) + 1));
          player = \<lparr>id' = ''player_'' @ show_int playerIdCounter, name = playerName,
                    score = 0, position = 0, roundData = Map.empty\<rparr>
      in (player, s\<lparr>players := players s @ [player]\<rparr>, playerIdCounter + 1))"

definition removePlayer :: "GameState \<Rightarrow> string \<Rightarrow> GameState" where
  "removePlayer s playerId = s\<lparr>players := filter (\<lambda>p. id' p \<noteq> playerId) (players s)\<rparr>"

definition updatePlayer :: "GameState \<Rightarrow> string \<Rightarrow> PlayerUpdates \<Rightarrow> GameState" where
  "updatePlayer s playerId updates =
     s\<lparr>players := update_first (\<lambda>p. id' p = playerId) (\<lambda>p. assignPlayer p updates) (players s)\<rparr>"

definition updatePlayerScore :: "GameState \<Rightarrow> string \<Rightarrow> int \<Rightarrow> GameState" where
  "updatePlayerScore s playerId delta =
     s\<lparr>players := update_first (\<lambda>p. id' p = playerId)
        (\<lambda>p. let p1 = p\<lparr>score := score p + delta\<rparr>;
                 p2 = (if score p1 < 0 then p1\<lparr>score := 0\<rparr> else p1)
             in if gameMode s = ''cribbage'' then p2\<lparr>position := score p2\<rparr> else p2)
        (players s)\<rparr>"

definition setPlayerScore :: "GameState \<Rightarrow> string \<Rightarrow> int \<Rightarrow> GameState" where
  "setPlayerScore s playerId sc =
     s\<lparr>players := update_first (\<lambda>p. id' p = playerId)
        (\<lambda>p. let p1 = p\<lparr>score := max 0 sc\<rparr>
             in if gameMode s = ''cribbage'' then p1\<lparr>position := score p1\<rparr> else p1)
        (players s)\<rparr>"

subsection \<open>Game mode, settings, rounds, reset\<close>

definition setGameMode :: "GameState \<Rightarrow> string \<Rightarrow> GameState" where
  "setGameMode s mode =
     s\<lparr>gameMode := mode, currentRound := 1, rounds := [],
       players := map (\<lambda>player. player\<lparr>roundData := Map.empty\<rparr>) (players s)\<rparr>"

definition updateSettings :: "GameState \<Rightarrow> SettingsUpdates \<Rightarrow> GameState" where
  "updateSettings s newSettings = s\<lparr>settings := assignSettings (settings s) newSettings\<rparr>"

definition updateRoundData :: "GameState \<Rightarrow> string \<Rightarrow> int \<Rightarrow> RoundEntry \<Rightarrow> GameState" where
  "updateRoundData s playerId round data =
     s\<lparr>players := update_first (\<lambda>p. id' p = playerId)
        (\<lambda>p. let e = (case roundData p round of
                        None \<Rightarrow> \<lparr>bid = None, tricks = None, roundScore = None\<rparr>
                      | Some e \<Rightarrow> e)
             in p\<lparr>roundData := (roundData p)(round \<mapsto> assignRound e data)\<rparr>)
        (players s)\<rparr>"

definition resetGame :: "GameState \<Rightarrow> GameState" where
  "resetGame s =
     s\<lparr>players := map (\<lambda>player. player\<lparr>score := 0, position := 0, roundData := Map.empty\<rparr>)
                      (players s),
       currentRound := 1, rounds := []\<rparr>"

subsection \<open>Serialization\<close>


text \<open>\<open>parseInt(player.id.split('_')[1])\<close>; \<open>parseInt\<close> reads \<open>undefined\<close> as the
  string of that name.\<close>

definition idNum :: "string \<Rightarrow> int option" where
  "idNum i = parseInt (or_else (nth_opt (split_on CHR ''_'' i) 1) ''undefined'')"

definition bumpCounter :: "int \<Rightarrow> Player \<Rightarrow> int" where
  "bumpCounter playerIdCounter player =
     (case idNum (id' player) of
        None \<Rightarrow> playerIdCounter
      | Some n \<Rightarrow> if n \<ge> playerIdCounter then n + 1 else playerIdCounter)"

text \<open>
  \<open>fromJSON\<close> takes a field of \<open>data\<close> when it is truthy: an array or an object always
  is, a string when it is not empty, a number when it is not \<open>0\<close>.
\<close>

definition fromJSON :: "GameState \<Rightarrow> int \<Rightarrow> Snapshot \<Rightarrow> GameState \<times> int" where
  "fromJSON s playerIdCounter data =
     (let s1 = (case s_players data of None \<Rightarrow> s | Some ps \<Rightarrow> s\<lparr>players := ps\<rparr>);
          s2 = (case s_gameMode data of
                  None \<Rightarrow> s1
                | Some m \<Rightarrow> if m \<noteq> [] then s1\<lparr>gameMode := m\<rparr> else s1);
          s3 = (case s_settings data of
                  None \<Rightarrow> s2
                | Some u \<Rightarrow> s2\<lparr>settings := assignSettings (settings s2) u\<rparr>);
          s4 = (case s_currentRound data of
                  None \<Rightarrow> s3
                | Some r \<Rightarrow> if r \<noteq> 0 then s3\<lparr>currentRound := r\<rparr> else s3);
          s5 = (case s_rounds data of None \<Rightarrow> s4 | Some rs \<Rightarrow> s4\<lparr>rounds := rs\<rparr>)
      in (s5, foldl bumpCounter playerIdCounter (players s5)))"

section \<open>The URL codec (url-manager.js)\<close>

text \<open>
  A \<open>URLSearchParams\<close> object is the list of its name and value pairs, in order. The
  browser's percent-encoding of the list into the text of the query string and its
  decoding are not part of the repository: \<open>serializeToURL\<close> returns the list that
  \<open>params.toString()\<close> encodes, and \<open>deserializeFromURL\<close> starts from the list that
  \<open>new URLSearchParams(window.location.search)\<close> decodes. The text is empty exactly when
  the list is.
\<close>

type_synonym URLSearchParams = "(string \<times> string) list"

fun set_param :: "string \<Rightarrow> string \<Rightarrow> URLSearchParams \<Rightarrow> URLSearchParams" where
  "set_param k v [] = [(k, v)]"
| "set_param k v (kv # ps) =
     (if fst kv = k then (k, v) # filter (\<lambda>kv'. fst kv' \<noteq> k) ps else kv # set_param k v ps)"

definition get_param :: "URLSearchParams \<Rightarrow> string \<Rightarrow> string option" where
  "get_param ps k = map_of ps k"

definition serializeToURL :: "GameState \<Rightarrow> URLSearchParams" where
  "serializeToURL gameState =
     (let params = set_param ''game'' (gameMode gameState) [];
          params = (if length (players gameState) > 0
                    then set_param ''players'' (join '','' (map name (players gameState))) params
                    else params);
          params = set_param ''theme'' (colorTheme (settings gameState)) params;
          params = set_param ''showRounds'' (bool_string (showRounds (settings gameState))) params;
          params = set_param ''numRounds'' (show_int (numberOfRounds (settings gameState))) params;
          params = set_param ''showBids'' (bool_string (showBids (settings gameState))) params;
          params = set_param ''showTricks'' (bool_string (showTricks (settings gameState))) params;
          params = set_param ''showDeal'' (bool_string (showDeal (settings gameState))) params
      in params)"

definition urlPlayer :: "nat \<times> string \<Rightarrow> Player" where
  "urlPlayer ix =
     \<lparr>id' = ''player_'' @ show_int (int (fst ix)), name = trim (snd ix), score = 0, position = 0,
      roundData = Map.empty\<rparr>"

definition deserializeFromURL :: "URLSearchParams \<Rightarrow> Snapshot option" where
  "deserializeFromURL params =
     (if params = [] then None
      else
        let state_settings =
              \<lparr>colorTheme = str_or (get_param params ''theme'') ''purple'',
               showRounds = (get_param params ''showRounds'' \<noteq> Some ''false''),
               numberOfRounds =
                 num_or (parseInt (or_else (get_param params ''numRounds'') ''null'')) 10,
               showBids = (get_param params ''showBids'' \<noteq> Some ''false''),
               showTricks = (get_param params ''showTricks'' \<noteq> Some ''false''),
               showDeal = (get_param params ''showDeal'' \<noteq> Some ''false'')\<rparr>;
            playersParam = get_param params ''players'';
            state_players =
              (case playersParam of
                 None \<Rightarrow> []
               | Some v \<Rightarrow>
                   if v \<noteq> [] then map urlPlayer (enumerate 0 (split_on CHR '','' v)) else [])
        in Some \<lparr>s_players = Some state_players,
                 s_gameMode = Some (str_or (get_param params ''game'') ''custom''),
                 s_settings = Some (all_fields state_settings),
                 s_currentRound = Some 1, s_rounds = Some []\<rparr>)"

section \<open>Session start\<close>

text \<open>
  \<open>init\<close> runs once on the state \<open>new GameState()\<close> with the counter at \<open>0\<close>. Its inputs
  are the parameters of the address bar and what \<open>loadFromStorage\<close> returns.
\<close>

definition init :: "URLSearchParams \<Rightarrow> Snapshot option \<Rightarrow> GameState \<times> int" where
  "init urlParams savedState =
     (case deserializeFromURL urlParams of
        Some urlState \<Rightarrow> fromJSON newGameState 0 urlState
      | None \<Rightarrow>
          (case savedState of
             Some saved \<Rightarrow> fromJSON newGameState 0 saved
           | None \<Rightarrow>
               (let (p1, s1, c1) = addPlayer newGameState 0 (Some ''Player 1'');
                    (p2, s2, c2) = addPlayer s1 c1 (Some ''Player 2'')
                in (s2, c2))))"

section \<open>Sequences of operations\<close>

text \<open>The calls that change the state of a session, and a session as the run of a list
  of calls on the state and the id counter.\<close>

datatype Op =
    AddPlayer "string option"
  | RemovePlayer string
  | UpdatePlayer string PlayerUpdates
  | UpdatePlayerScore string int
  | SetPlayerScore string int
  | SetGameMode string
  | UpdateSettings SettingsUpdates
  | UpdateRoundData string int RoundEntry
  | ResetGame
  | FromJSON Snapshot

fun apply_op :: "GameState \<times> int \<Rightarrow> Op \<Rightarrow> GameState \<times> int" where
  "apply_op (s, c) (AddPlayer nm) = snd (addPlayer s c nm)"
| "apply_op (s, c) (RemovePlayer i) = (removePlayer s i, c)"
| "apply_op (s, c) (UpdatePlayer i u) = (updatePlayer s i u, c)"
| "apply_op (s, c) (UpdatePlayerScore i d) = (updatePlayerScore s i d, c)"
| "apply_op (s, c) (SetPlayerScore i v) = (setPlayerScore s i v, c)"
| "apply_op (s, c) (SetGameMode m) = (setGameMode s m, c)"
| "apply_op (s, c) (UpdateSettings u) = (updateSettings s u, c)"
| "apply_op (s, c) (UpdateRoundData i r d) = (updateRoundData s i r d, c)"
| "apply_op (s, c) ResetGame = (resetGame s, c)"
| "apply_op (s, c) (FromJSON d) = fromJSON s c d"

definition run_ops :: "GameState \<times> int \<Rightarrow> Op list \<Rightarrow> GameState \<times> int" where
  "run_ops = foldl apply_op"

text \<open>Every score of the state is at least \<open>0\<close>.\<close>

definition scores_nonneg :: "GameState \<Rightarrow> bool" where
  "scores_nonneg s = list_all (\<lambda>p. 0 \<le> score p) (players s)"

text \<open>A call that hands over no negative score: an \<open>updatePlayer\<close> whose \<open>score\<close> field
  is absent or at least \<open>0\<close>, a \<open>fromJSON\<close> whose players have scores of at least \<open>0\<close>,
  and every other call.\<close>

fun gives_no_negative_score :: "Op \<Rightarrow> bool" where
  "gives_no_negative_score (UpdatePlayer i u) = (case u_score u of None \<Rightarrow> True | Some v \<Rightarrow> 0 \<le> v)"
| "gives_no_negative_score (FromJSON d) =
     (case s_players d of None \<Rightarrow> True | Some ps \<Rightarrow> list_all (\<lambda>p. 0 \<le> score p) ps)"
| "gives_no_negative_score _ = True"

section \<open>Concrete sessions\<close>

text \<open>A cribbage session of two players, used to run the operations on.\<close>

definition ann :: Player where
  "ann = \<lparr>id' = ''player_0'', name = ''Ann'', score = 120, position = 120,
           roundData = Map.empty\<rparr>"

definition bob :: Player where
  "bob = \<lparr>id' = ''player_1'', name = ''Bob'', score = 3, position = 3,
           roundData = [1 \<mapsto> \<lparr>bid = Some 2, tricks = Some 2, roundScore = Some 12\<rparr>]\<rparr>"

definition cribbageSession :: GameState where
  "cribbageSession = newGameState\<lparr>players := [ann, bob], gameMode := ''cribbage''\<rparr>"

text \<open>An \<open>updatePlayer\<close> argument with a negative score, and a run of calls none of which
  hands over a negative score.\<close>

definition negativeScore :: PlayerUpdates where
  "negativeScore =
     \<lparr>u_id = None, u_name = None, u_score = Some (- 5), u_position = None, u_roundData = None\<rparr>"

definition renameToCy :: PlayerUpdates where
  "renameToCy =
     \<lparr>u_id = None, u_name = Some ''Cy'', u_score = None, u_position = None, u_roundData = None\<rparr>"

definition exampleOps :: "Op list" where
  "exampleOps =
     [UpdatePlayerScore ''player_1'' (- 10), AddPlayer None, SetPlayerScore ''player_0'' (- 4),
      UpdatePlayer ''player_1'' renameToCy, UpdatePlayerScore ''player_2'' 5,
      RemovePlayer ''player_0'', SetGameMode ''pooch'']"



definition themeOnlyQuery :: URLSearchParams where
  "themeOnlyQuery = [(''theme'', ''blue'')]"

text \<open>Sessions whose player names carry a comma, and names that are plain.\<close>

definition commaSession :: GameState where
  "commaSession = newGameState\<lparr>players := [ann\<lparr>name := ''Smith, Jo'', score := 7\<rparr>]\<rparr>"

definition plainSession :: GameState where
  "plainSession = newGameState\<lparr>players := [ann, bob], gameMode := ''pooch''\<rparr>"

section \<open>Scoring rules\<close>

text \<open>
  Claim C3. For all integers \<open>b\<close> (the bid) and \<open>t\<close> (the tricks), the Pooch
  \<open>calculateScore\<close> returns the bid plus 10 when bid and tricks are equal, and minus
  twice the distance between them otherwise; so
  \<open>calculateScore(5,5) = 15\<close>, \<open>calculateScore(4,3) = -2\<close>, \<open>calculateScore(0,0) = 10\<close> and
  \<open>calculateScore(3,0) = -6\<close>.
\<close>

theorem calculateScore_pooch:
  "calculateScore b t = (if b = t then b + 10 else - 2 * \<bar>b - t\<bar>)
   \<and> calculateScore 5 5 = 15 \<and> calculateScore 4 3 = - 2
   \<and> calculateScore 0 0 = 10 \<and> calculateScore 3 0 = - 6"
  by (simp add: calculateScore_def)

theorem calculateScore_pooch_witness:
  "calculateScore 7 7 = 17 \<and> calculateScore 2 6 = - 8"
  using calculateScore_pooch [of 7 7] calculateScore_pooch [of 2 6] by simp

text \<open>
  Claim C4. For every integer score, the cribbage \<open>calculatePosition\<close> returns the
  smaller of the score and 121, and \<open>checkWin\<close> holds exactly when the score is at least
  121; so the positions of 0, 121 and 200 are 0, 121 and 121, a score of 120 does not
  win and a score of 121 does.
\<close>

theorem cribbage_position_and_win:
  "calculatePosition sc = min sc 121 \<and> (checkWin sc \<longleftrightarrow> sc \<ge> 121)
   \<and> calculatePosition 0 = 0 \<and> calculatePosition 121 = 121 \<and> calculatePosition 200 = 121
   \<and> \<not> checkWin 120 \<and> checkWin 121"
  by (simp add: calculatePosition_def checkWin_def)

theorem cribbage_position_and_win_witness:
  "calculatePosition 57 = 57 \<and> \<not> checkWin 57 \<and> calculatePosition 130 = 121 \<and> checkWin 130"
  using cribbage_position_and_win [of 57] cribbage_position_and_win [of 130] by simp

section \<open>Frame properties of \<open>setGameMode\<close> and \<open>resetGame\<close>\<close>

text \<open>
  Claim C8. For every state, \<open>setGameMode(mode)\<close> sets \<open>gameMode\<close> to the mode, resets
  \<open>currentRound\<close> to 1, clears \<open>rounds\<close> and clears the \<open>roundData\<close> of every player,
  while the name and the score of every player are unchanged (and so are the ids, the
  positions and the settings).
\<close>

theorem setGameMode_frame:
  "gameMode (setGameMode s mode) = mode
   \<and> currentRound (setGameMode s mode) = 1
   \<and> rounds (setGameMode s mode) = []
   \<and> map roundData (players (setGameMode s mode)) = replicate (length (players s)) Map.empty
   \<and> map name (players (setGameMode s mode)) = map name (players s)
   \<and> map score (players (setGameMode s mode)) = map score (players s)
   \<and> map id' (players (setGameMode s mode)) = map id' (players s)
   \<and> map position (players (setGameMode s mode)) = map position (players s)
   \<and> settings (setGameMode s mode) = settings s"
  by (simp add: setGameMode_def o_def map_replicate_const)

theorem setGameMode_frame_witness:
  "gameMode (setGameMode cribbageSession ''pooch'') = ''pooch''
   \<and> currentRound (setGameMode cribbageSession ''pooch'') = 1
   \<and> map roundData (players (setGameMode cribbageSession ''pooch'')) = [Map.empty, Map.empty]
   \<and> map name (players (setGameMode cribbageSession ''pooch'')) = [''Ann'', ''Bob'']
   \<and> map score (players (setGameMode cribbageSession ''pooch'')) = [120, 3]"
  using setGameMode_frame [of cribbageSession "''pooch''"]
  by (simp add: cribbageSession_def ann_def bob_def numeral_2_eq_2)

text \<open>
  Claim C9. For every state, \<open>resetGame()\<close> sets the score and the position of every
  player to 0 and the \<open>roundData\<close> of every player to empty, resets \<open>currentRound\<close> to 1
  and clears \<open>rounds\<close>, while the length of the player list, its order, the ids and the
  names are unchanged.
\<close>

theorem resetGame_frame:
  "map score (players (resetGame s)) = replicate (length (players s)) 0
   \<and> map position (players (resetGame s)) = replicate (length (players s)) 0
   \<and> map roundData (players (resetGame s)) = replicate (length (players s)) Map.empty
   \<and> currentRound (resetGame s) = 1
   \<and> rounds (resetGame s) = []
   \<and> length (players (resetGame s)) = length (players s)
   \<and> map id' (players (resetGame s)) = map id' (players s)
   \<and> map name (players (resetGame s)) = map name (players s)"
  by (simp add: resetGame_def o_def map_replicate_const)

theorem resetGame_frame_witness:
  "map score (players (resetGame cribbageSession)) = [0, 0]
   \<and> map position (players (resetGame cribbageSession)) = [0, 0]
   \<and> map roundData (players (resetGame cribbageSession)) = [Map.empty, Map.empty]
   \<and> map id' (players (resetGame cribbageSession)) = [''player_0'', ''player_1'']
   \<and> map name (players (resetGame cribbageSession)) = [''Ann'', ''Bob'']"
  using resetGame_frame [of cribbageSession]
  by (simp add: cribbageSession_def ann_def bob_def numeral_2_eq_2)

section \<open>Scores and positions under the mutations\<close>

subsection \<open>The first player with an id\<close>

lemma length_update_first: "length (update_first P f xs) = length xs"
  by (induction xs) auto

lemma list_all_update_first:
  "list_all Q xs \<Longrightarrow> (\<And>x. Q x \<Longrightarrow> Q (f x)) \<Longrightarrow> list_all Q (update_first P f xs)"
  by (induction xs) auto

lemma find_update_first:
  "find P xs = Some x \<Longrightarrow> P (f x) \<Longrightarrow> find P (update_first P f xs) = Some (f x)"
  by (induction xs) (auto split: if_splits)

lemma players_fromJSON:
  "players (fst (fromJSON s c d)) = or_else (s_players d) (players s)"
  by (simp add: fromJSON_def Let_def or_else_def split: option.splits)

lemma scores_update_first:
  assumes "scores_nonneg s" and "\<And>p. 0 \<le> score p \<Longrightarrow> 0 \<le> score (f p)"
  shows "scores_nonneg (s\<lparr>players := update_first P f (players s)\<rparr>)"
proof -
  from assms(1) have "list_all (\<lambda>p. 0 \<le> score p) (players s)"
    by (simp add: scores_nonneg_def)
  then have "list_all (\<lambda>p. 0 \<le> score p) (update_first P f (players s))"
    using assms(2) by (rule list_all_update_first)
  then show ?thesis by (simp add: scores_nonneg_def)
qed

lemma scores_nonneg_apply_op:
  assumes "scores_nonneg s" and "gives_no_negative_score x"
  shows "scores_nonneg (fst (apply_op (s, c) x))"
proof (cases x)
  case (AddPlayer nm)
  with assms show ?thesis by (simp add: addPlayer_def Let_def scores_nonneg_def)
next
  case (RemovePlayer i)
  with assms show ?thesis by (simp add: removePlayer_def scores_nonneg_def list_all_iff)
next
  case (UpdatePlayer i u)
  with assms(2) have "\<And>p. 0 \<le> score p \<Longrightarrow> 0 \<le> score (assignPlayer p u)"
    by (simp add: assignPlayer_def or_else_def split: option.splits)
  with assms(1) have "scores_nonneg (updatePlayer s i u)"
    unfolding updatePlayer_def by (rule scores_update_first)
  with UpdatePlayer show ?thesis by simp
next
  case (UpdatePlayerScore i d)
  have "scores_nonneg (updatePlayerScore s i d)"
    unfolding updatePlayerScore_def using assms(1)
    by (rule scores_update_first) (simp add: Let_def)
  with UpdatePlayerScore show ?thesis by simp
next
  case (SetPlayerScore i v)
  have "scores_nonneg (setPlayerScore s i v)"
    unfolding setPlayerScore_def using assms(1)
    by (rule scores_update_first) (simp add: Let_def)
  with SetPlayerScore show ?thesis by simp
next
  case (SetGameMode m)
  with assms show ?thesis by (simp add: setGameMode_def scores_nonneg_def list_all_iff)
next
  case (UpdateSettings u)
  with assms show ?thesis by (simp add: updateSettings_def scores_nonneg_def)
next
  case (UpdateRoundData i r d)
  have "scores_nonneg (updateRoundData s i r d)"
    unfolding updateRoundData_def using assms(1)
    by (rule scores_update_first) (simp add: Let_def)
  with UpdateRoundData show ?thesis by simp
next
  case ResetGame
  then show ?thesis by (simp add: resetGame_def scores_nonneg_def list_all_iff)
next
  case (FromJSON d)
  with assms show ?thesis
    by (simp add: scores_nonneg_def players_fromJSON or_else_def split: option.splits)
qed

lemma scores_nonneg_run_ops:
  "scores_nonneg (fst st) \<Longrightarrow> list_all gives_no_negative_score ops \<Longrightarrow>
   scores_nonneg (fst (run_ops st ops))"
proof (induction ops arbitrary: st)
  case Nil
  then show ?case by (simp add: run_ops_def)
next
  case (Cons x ops)
  obtain s c where st: "st = (s, c)" by (cases st)
  from Cons.prems st have "scores_nonneg (fst (apply_op st x))"
    using scores_nonneg_apply_op [of s x c] by simp
  with Cons.IH [of "apply_op st x"] Cons.prems(2) show ?case
    by (simp add: run_ops_def)
qed



lemma find_Some_holds: "find P xs = Some x \<Longrightarrow> P x"
  by (induction xs) (auto split: if_splits)

lemma findPlayer_update_first:
  assumes "findPlayer s i = Some p" and "id' (f p) = i"
  shows "findPlayer (s\<lparr>players := update_first (\<lambda>p. id' p = i) f (players s)\<rparr>) i = Some (f p)"
proof -
  from assms(1) have "find (\<lambda>p. id' p = i) (players s) = Some p"
    by (simp add: findPlayer_def)
  then have "find (\<lambda>p. id' p = i) (update_first (\<lambda>p. id' p = i) f (players s)) = Some (f p)"
    using assms(2) by (rule find_update_first)
  then show ?thesis by (simp add: findPlayer_def)
qed

lemma findPlayer_id: "findPlayer s i = Some p \<Longrightarrow> id' p = i"
  unfolding findPlayer_def by (rule find_Some_holds)

lemma findPlayer_updatePlayerScore:
  assumes "findPlayer s i = Some p"
  shows "\<exists>p'. findPlayer (updatePlayerScore s i d) i = Some p' \<and>
     score p' = max 0 (score p + d) \<and>
     position p' = (if gameMode s = ''cribbage'' then score p' else position p)"
proof -
  define f where "f = (\<lambda>p::Player. let p1 = p\<lparr>score := score p + d\<rparr>;
                 p2 = (if score p1 < 0 then p1\<lparr>score := 0\<rparr> else p1)
             in if gameMode s = ''cribbage'' then p2\<lparr>position := score p2\<rparr> else p2)"
  have alt: "updatePlayerScore s i d =
      s\<lparr>players := update_first (\<lambda>p. id' p = i) f (players s)\<rparr>"
    unfolding updatePlayerScore_def f_def ..
  have flds: "id' (f p) = id' p" "score (f p) = max 0 (score p + d)"
    "position (f p) = (if gameMode s = ''cribbage'' then max 0 (score p + d) else position p)"
    by (simp_all add: f_def Let_def max_def)
  from assms have "id' (f p) = i"
    by (simp add: flds findPlayer_id)
  with assms have "findPlayer (updatePlayerScore s i d) i = Some (f p)"
    unfolding alt by (rule findPlayer_update_first)
  then show ?thesis by (simp add: flds)
qed

lemma findPlayer_setPlayerScore:
  assumes "findPlayer s i = Some p"
  shows "\<exists>p'. findPlayer (setPlayerScore s i v) i = Some p' \<and>
     score p' = max 0 v \<and>
     position p' = (if gameMode s = ''cribbage'' then score p' else position p)"
proof -
  define f where "f = (\<lambda>p::Player. let p1 = p\<lparr>score := max 0 v\<rparr>
             in if gameMode s = ''cribbage'' then p1\<lparr>position := score p1\<rparr> else p1)"
  have alt: "setPlayerScore s i v =
      s\<lparr>players := update_first (\<lambda>p. id' p = i) f (players s)\<rparr>"
    unfolding setPlayerScore_def f_def ..
  have flds: "id' (f p) = id' p" "score (f p) = max 0 v"
    "position (f p) = (if gameMode s = ''cribbage'' then max 0 v else position p)"
    by (simp_all add: f_def Let_def)
  from assms have "id' (f p) = i"
    by (simp add: flds findPlayer_id)
  with assms have "findPlayer (setPlayerScore s i v) i = Some (f p)"
    unfolding alt by (rule findPlayer_update_first)
  then show ?thesis by (simp add: flds)
qed


lemma findPlayer_updatePlayer:
  assumes "findPlayer s i = Some p" and "u_id u = None"
  shows "findPlayer (updatePlayer s i u) i = Some (assignPlayer p u)"
proof -
  from assms have "id' (assignPlayer p u) = i"
    by (simp add: assignPlayer_def or_else_def findPlayer_id)
  with assms(1) show ?thesis
    unfolding updatePlayer_def by (rule findPlayer_update_first)
qed

subsection \<open>Scores below zero\<close>

text \<open>
  Claim C1, as the code has it. \<open>updatePlayerScore\<close> and \<open>setPlayerScore\<close> clamp the
  score of the player they find to a minimum of 0, and \<open>resetGame\<close> sets 0; \<open>updatePlayer\<close>
  is a shallow merge and stores a score field as it is given, and \<open>fromJSON\<close> takes the
  players of its data as they are. So: from a state in which no score is negative, after
  every sequence of calls in which no \<open>updatePlayer\<close> and no \<open>fromJSON\<close> hands over a
  negative score, no score is negative; \<open>updatePlayerScore(id, d)\<close> leaves the player with
  the score \<open>max(0, score + d)\<close> and \<open>setPlayerScore(id, v)\<close> with \<open>max(0, v)\<close>; and
  \<open>updatePlayer\<close> (with no new id) leaves the player with the score field of its argument
  when there is one.
\<close>

theorem scores_nonneg_without_negative_input:
  "(scores_nonneg s \<and> list_all gives_no_negative_score ops
      \<longrightarrow> scores_nonneg (fst (run_ops (s, c) ops)))
   \<and> (findPlayer s i = Some p
      \<longrightarrow> (\<exists>p'. findPlayer (updatePlayerScore s i d) i = Some p' \<and> score p' = max 0 (score p + d))
        \<and> (\<exists>p'. findPlayer (setPlayerScore s i v) i = Some p' \<and> score p' = max 0 v))
   \<and> (findPlayer s i = Some p \<and> u_id u = None
      \<longrightarrow> (\<exists>p'. findPlayer (updatePlayer s i u) i = Some p'
            \<and> score p' = or_else (u_score u) (score p)))"
proof (intro conjI impI)
  assume "scores_nonneg s \<and> list_all gives_no_negative_score ops"
  then show "scores_nonneg (fst (run_ops (s, c) ops))"
    using scores_nonneg_run_ops [of "(s, c)" ops] by simp
next
  assume "findPlayer s i = Some p"
  then show "\<exists>p'. findPlayer (updatePlayerScore s i d) i = Some p' \<and> score p' = max 0 (score p + d)"
    using findPlayer_updatePlayerScore [of s i p d] by blast
next
  assume "findPlayer s i = Some p"
  then show "\<exists>p'. findPlayer (setPlayerScore s i v) i = Some p' \<and> score p' = max 0 v"
    using findPlayer_setPlayerScore [of s i p v] by blast
next
  assume "findPlayer s i = Some p \<and> u_id u = None"
  then have "findPlayer (updatePlayer s i u) i = Some (assignPlayer p u)"
    by (simp add: findPlayer_updatePlayer)
  moreover have "score (assignPlayer p u) = or_else (u_score u) (score p)"
    by (simp add: assignPlayer_def)
  ultimately show "\<exists>p'. findPlayer (updatePlayer s i u) i = Some p'
            \<and> score p' = or_else (u_score u) (score p)" by blast
qed

theorem scores_nonneg_without_negative_input_witness:
  "scores_nonneg cribbageSession \<and> list_all gives_no_negative_score exampleOps
   \<and> scores_nonneg (fst (run_ops (cribbageSession, 2) exampleOps))
   \<and> findPlayer cribbageSession ''player_1'' = Some bob \<and> u_id renameToCy = None
   \<and> (\<exists>p'. findPlayer (updatePlayerScore cribbageSession ''player_1'' (- 10)) ''player_1'' = Some p'
         \<and> score p' = 0)
   \<and> (\<exists>p'. findPlayer (setPlayerScore cribbageSession ''player_1'' (- 4)) ''player_1'' = Some p'
         \<and> score p' = 0)
   \<and> (\<exists>p'. findPlayer (updatePlayer cribbageSession ''player_1'' renameToCy) ''player_1'' = Some p'
         \<and> score p' = 3)"
proof -
  have h1: "scores_nonneg cribbageSession"
    by (simp add: scores_nonneg_def cribbageSession_def ann_def bob_def)
  have h2: "list_all gives_no_negative_score exampleOps"
    by (simp add: exampleOps_def renameToCy_def)
  have h3: "findPlayer cribbageSession ''player_1'' = Some bob"
    by (simp add: findPlayer_def cribbageSession_def ann_def bob_def)
  have h4: "u_id renameToCy = None" "u_score renameToCy = None"
    by (simp_all add: renameToCy_def)
  have h5: "score bob = 3"
    by (simp add: bob_def)
  show ?thesis
    using scores_nonneg_without_negative_input
      [where s = cribbageSession and ops = exampleOps and c = 2 and i = "''player_1''"
         and p = bob and d = "- 10" and v = "- 4" and u = renameToCy]
    by (simp add: h1 h2 h3 h4 h5 or_else_def)
qed

text \<open>The claim as it was stated fails for \<open>updatePlayer\<close> with a score field: the
  score \<open>-5\<close> is stored.\<close>

theorem updatePlayer_negative_score_counterexample:
  "scores_nonneg cribbageSession
   \<and> map score (players (updatePlayer cribbageSession ''player_1'' negativeScore)) = [120, - 5]
   \<and> \<not> scores_nonneg (updatePlayer cribbageSession ''player_1'' negativeScore)"
  by (simp add: scores_nonneg_def cribbageSession_def ann_def bob_def updatePlayer_def
      negativeScore_def assignPlayer_def or_else_def)

subsection \<open>The stored position in cribbage\<close>

text \<open>
  Claim C2, as the code has it. When \<open>gameMode\<close> is cribbage, after \<open>updatePlayerScore\<close>
  or \<open>setPlayerScore\<close> on an existing player the stored \<open>position\<close> of that player equals
  the stored score, which is \<open>min(score, 121)\<close> whenever the score is at most 121. The
  clamp at 121 is applied where the board is drawn, not in the stored field.
\<close>

theorem cribbage_position_is_score:
  "gameMode s = ''cribbage'' \<and> findPlayer s i = Some p
   \<longrightarrow> (\<exists>p'. findPlayer (updatePlayerScore s i d) i = Some p'
          \<and> score p' = max 0 (score p + d) \<and> position p' = score p'
          \<and> (score p' \<le> 121 \<longrightarrow> position p' = min (score p') 121))
     \<and> (\<exists>p'. findPlayer (setPlayerScore s i v) i = Some p'
          \<and> score p' = max 0 v \<and> position p' = score p'
          \<and> (score p' \<le> 121 \<longrightarrow> position p' = min (score p') 121))"
proof (intro impI conjI)
  assume a: "gameMode s = ''cribbage'' \<and> findPlayer s i = Some p"
  then obtain p' where "findPlayer (updatePlayerScore s i d) i = Some p'"
    "score p' = max 0 (score p + d)" "position p' = score p'"
    using findPlayer_updatePlayerScore [of s i p d] by auto
  then show "\<exists>p'. findPlayer (updatePlayerScore s i d) i = Some p'
          \<and> score p' = max 0 (score p + d) \<and> position p' = score p'
          \<and> (score p' \<le> 121 \<longrightarrow> position p' = min (score p') 121)"
    by auto
  from a obtain q' where "findPlayer (setPlayerScore s i v) i = Some q'"
    "score q' = max 0 v" "position q' = score q'"
    using findPlayer_setPlayerScore [of s i p v] by auto
  then show "\<exists>p'. findPlayer (setPlayerScore s i v) i = Some p'
          \<and> score p' = max 0 v \<and> position p' = score p'
          \<and> (score p' \<le> 121 \<longrightarrow> position p' = min (score p') 121)"
    by auto
qed

theorem cribbage_position_is_score_witness:
  "gameMode cribbageSession = ''cribbage'' \<and> findPlayer cribbageSession ''player_1'' = Some bob
   \<and> (\<exists>p'. findPlayer (updatePlayerScore cribbageSession ''player_1'' 4) ''player_1'' = Some p'
          \<and> score p' = 7 \<and> position p' = 7)
   \<and> (\<exists>p'. findPlayer (setPlayerScore cribbageSession ''player_1'' 130) ''player_1'' = Some p'
          \<and> score p' = 130 \<and> position p' = 130)"
proof -
  have h1: "gameMode cribbageSession = ''cribbage''"
    by (simp add: cribbageSession_def)
  have h3: "findPlayer cribbageSession ''player_1'' = Some bob"
    by (simp add: findPlayer_def cribbageSession_def ann_def bob_def)
  have h5: "score bob = 3"
    by (simp add: bob_def)
  show ?thesis
    using cribbage_position_is_score
      [where s = cribbageSession and i = "''player_1''" and p = bob and d = 4 and v = 130]
    by (auto simp add: h1 h3 h5)
qed

text \<open>Above 121 the stored position is not \<open>min(score, 121)\<close>: from a score of 120, five
  more points store the position 125.\<close>

theorem cribbage_position_above_121_counterexample:
  "gameMode cribbageSession = ''cribbage''
   \<and> findPlayer cribbageSession ''player_0'' = Some ann
   \<and> score (the (findPlayer (updatePlayerScore cribbageSession ''player_0'' 5) ''player_0'')) = 125
   \<and> position (the (findPlayer (updatePlayerScore cribbageSession ''player_0'' 5) ''player_0'')) = 125
   \<and> min (score (the (findPlayer (updatePlayerScore cribbageSession ''player_0'' 5) ''player_0''))) 121
       = 121
   \<and> position (the (findPlayer (setPlayerScore cribbageSession ''player_0'' 200) ''player_0'')) = 200"
  by (simp add: findPlayer_def cribbageSession_def ann_def bob_def updatePlayerScore_def
      setPlayerScore_def Let_def)

section \<open>Decoding a query string\<close>







section \<open>Session start from a URL without players\<close>

text \<open>
  Claim C10. For a query string that is not empty and has no \<open>players\<close> parameter (one
  with a theme only, for example), \<open>deserializeFromURL\<close> returns a snapshot whose list of
  players is empty, and \<open>init\<close>, which uses a snapshot of the URL alone when there is
  one, restores a state with no player and does not add the two default players.
\<close>

theorem url_without_players_restores_no_players:
  "ps \<noteq> [] \<and> get_param ps ''players'' = None
   \<longrightarrow> (\<exists>snap. deserializeFromURL ps = Some snap \<and> s_players snap = Some [])
     \<and> players (fst (init ps saved)) = []"
proof (intro impI conjI)
  assume a: "ps \<noteq> [] \<and> get_param ps ''players'' = None"
  then have d: "\<exists>snap. deserializeFromURL ps = Some snap \<and> s_players snap = Some []"
    by (simp add: deserializeFromURL_def Let_def)
  then show "\<exists>snap. deserializeFromURL ps = Some snap \<and> s_players snap = Some []" .
  from d obtain snap where snap: "deserializeFromURL ps = Some snap" "s_players snap = Some []"
    by blast
  then have "init ps saved = fromJSON newGameState 0 snap"
    by (simp add: init_def)
  with snap(2) show "players (fst (init ps saved)) = []"
    by (simp add: players_fromJSON or_else_def)
qed

theorem url_without_players_restores_no_players_witness:
  "themeOnlyQuery \<noteq> [] \<and> get_param themeOnlyQuery ''players'' = None
   \<and> (\<exists>snap. deserializeFromURL themeOnlyQuery = Some snap \<and> s_players snap = Some [])
   \<and> players (fst (init themeOnlyQuery None)) = []
   \<and> length (players (fst (init [] None))) = 2"
proof -
  have h: "themeOnlyQuery \<noteq> [] \<and> get_param themeOnlyQuery ''players'' = None"
    by (simp add: themeOnlyQuery_def get_param_def)
  have seeded: "length (players (fst (init [] None))) = 2"
    by (simp add: init_def deserializeFromURL_def addPlayer_def Let_def newGameState_def)
  from h url_without_players_restores_no_players [of themeOnlyQuery None] seeded
  show ?thesis by blast
qed

section \<open>Encoding a state into a query string and decoding it\<close>

lemma split_on_no_sep: "sep \<notin> set x \<Longrightarrow> split_on sep x = [x]"
  by (induction x) auto

lemma split_on_append_sep:
  "sep \<notin> set x \<Longrightarrow> split_on sep (x @ sep # rest) = x # split_on sep rest"
  by (induction x) auto

lemma split_on_join:
  "xs \<noteq> [] \<Longrightarrow> list_all (\<lambda>x. sep \<notin> set x) xs \<Longrightarrow> split_on sep (join [sep] xs) = xs"
proof (induction "[sep]" xs rule: join.induct)
  case 1
  then show ?case by simp
next
  case (2 x)
  then show ?case by (simp add: split_on_no_sep)
next
  case (3 x y zs)
  then show ?case by (simp add: split_on_append_sep)
qed

lemma join_eq_Nil: "join [sep] xs = [] \<longleftrightarrow> xs = [] \<or> xs = [[]]"
  by (induction "[sep]" xs rule: join.induct) auto

lemma serializeToURL_not_empty: "serializeToURL s \<noteq> []"
  by (simp add: serializeToURL_def Let_def)

lemma get_players_serializeToURL:
  "get_param (serializeToURL s) ''players'' =
     (if players s = [] then None else Some (join '','' (map name (players s))))"
  by (simp add: serializeToURL_def Let_def get_param_def)

lemma deserializeFromURL_players:
  "ps \<noteq> [] \<Longrightarrow> \<exists>snap. deserializeFromURL ps = Some snap
     \<and> s_players snap = Some (case get_param ps ''players'' of
           None \<Rightarrow> []
         | Some v \<Rightarrow> if v \<noteq> [] then map urlPlayer (enumerate 0 (split_on CHR '','' v)) else [])
     \<and> s_currentRound snap = Some 1 \<and> s_rounds snap = Some []"
  by (simp add: deserializeFromURL_def Let_def)

lemma urlPlayer_fresh:
  "list_all (\<lambda>q. score q = 0 \<and> position q = 0 \<and> roundData q = Map.empty) (map urlPlayer ixs)"
  by (simp add: list_all_iff urlPlayer_def)

lemma name_urlPlayer: "map name (map urlPlayer (enumerate n xs)) = map trim xs"
  by (induction xs arbitrary: n) (simp_all add: urlPlayer_def)

text \<open>
  Claim C6, as the code has it. For every state, the query string of \<open>serializeToURL\<close>
  decodes to a snapshot in which every player has score 0, position 0 and empty
  \<open>roundData\<close>, \<open>currentRound\<close> is 1 and \<open>rounds\<close> is empty. The names of the decoded
  players are the pieces of the comma-joined names, split at every comma and trimmed
  (and there is no player when the joined names are the empty string). So the names are
  preserved in order when there is a player, the names are not the one empty name, and
  no name has a comma or white space at either end.
\<close>

theorem url_round_trip_resets_scores:
  "\<exists>snap ps. deserializeFromURL (serializeToURL s) = Some snap \<and> s_players snap = Some ps
     \<and> list_all (\<lambda>q. score q = 0 \<and> position q = 0 \<and> roundData q = Map.empty) ps
     \<and> s_currentRound snap = Some 1 \<and> s_rounds snap = Some []
     \<and> map name ps =
         (if players s = [] \<or> map name (players s) = [[]] then []
          else map trim (split_on CHR '','' (join '','' (map name (players s)))))
     \<and> (players s \<noteq> [] \<and> map name (players s) \<noteq> [[]]
          \<and> list_all (\<lambda>p. CHR '','' \<notin> set (name p) \<and> trim (name p) = name p) (players s)
        \<longrightarrow> map name ps = map name (players s))"
proof -
  define names where "names = map name (players s)"
  define ps where "ps =
     (if players s = [] \<or> names = [[]] then []
      else map urlPlayer (enumerate 0 (split_on CHR '','' (join '','' names))))"
  have empty: "join '','' names = [] \<longleftrightarrow> players s = [] \<or> names = [[]]"
    using join_eq_Nil [of "CHR '',''" names] by (simp add: names_def)
  obtain snap where snap: "deserializeFromURL (serializeToURL s) = Some snap"
    "s_players snap = Some (case get_param (serializeToURL s) ''players'' of
           None \<Rightarrow> []
         | Some v \<Rightarrow> if v \<noteq> [] then map urlPlayer (enumerate 0 (split_on CHR '','' v)) else [])"
    "s_currentRound snap = Some 1" "s_rounds snap = Some []"
    using deserializeFromURL_players [OF serializeToURL_not_empty] by blast
  have sp: "s_players snap = Some ps"
    using empty by (auto simp: snap(2) get_players_serializeToURL ps_def names_def)
  have fresh: "list_all (\<lambda>q. score q = 0 \<and> position q = 0 \<and> roundData q = Map.empty) ps"
    unfolding ps_def using urlPlayer_fresh by simp
  have nm: "map name ps =
         (if players s = [] \<or> names = [[]] then []
          else map trim (split_on CHR '','' (join '','' names)))"
    by (simp add: ps_def name_urlPlayer del: map_map)
  have kept: "map name ps = names"
    if "players s \<noteq> [] \<and> names \<noteq> [[]]
          \<and> list_all (\<lambda>p. CHR '','' \<notin> set (name p) \<and> trim (name p) = name p) (players s)"
  proof -
    from that have ne: "names \<noteq> []" by (simp add: names_def)
    from that have nc: "list_all (\<lambda>x. CHR '','' \<notin> set x) names"
      by (simp add: names_def list_all_iff)
    from that have tr: "map trim names = names"
      by (simp add: names_def list_all_iff map_idI)
    from ne nc have "split_on CHR '','' (join '','' names) = names"
      by (rule split_on_join)
    with that tr show ?thesis by (simp add: nm)
  qed
  have "deserializeFromURL (serializeToURL s) = Some snap \<and> s_players snap = Some ps
     \<and> list_all (\<lambda>q. score q = 0 \<and> position q = 0 \<and> roundData q = Map.empty) ps
     \<and> s_currentRound snap = Some 1 \<and> s_rounds snap = Some []
     \<and> map name ps =
         (if players s = [] \<or> map name (players s) = [[]] then []
          else map trim (split_on CHR '','' (join '','' (map name (players s)))))
     \<and> (players s \<noteq> [] \<and> map name (players s) \<noteq> [[]]
          \<and> list_all (\<lambda>p. CHR '','' \<notin> set (name p) \<and> trim (name p) = name p) (players s)
        \<longrightarrow> map name ps = map name (players s))"
    using snap(1) sp fresh snap(3,4) nm kept unfolding names_def by simp
  then show ?thesis
    by (intro exI [of _ snap] exI [of _ ps])
qed

theorem url_round_trip_resets_scores_witness:
  "players plainSession \<noteq> [] \<and> map name (players plainSession) \<noteq> [[]]
   \<and> list_all (\<lambda>p. CHR '','' \<notin> set (name p) \<and> trim (name p) = name p) (players plainSession)
   \<and> map score (players plainSession) = [120, 3]
   \<and> (\<exists>snap ps. deserializeFromURL (serializeToURL plainSession) = Some snap
         \<and> s_players snap = Some ps
         \<and> list_all (\<lambda>q. score q = 0 \<and> position q = 0 \<and> roundData q = Map.empty) ps
         \<and> s_currentRound snap = Some 1 \<and> s_rounds snap = Some []
         \<and> map name ps = [''Ann'', ''Bob''])"
proof -
  have h: "players plainSession \<noteq> [] \<and> map name (players plainSession) \<noteq> [[]]
   \<and> list_all (\<lambda>p. CHR '','' \<notin> set (name p) \<and> trim (name p) = name p) (players plainSession)"
    by (simp add: plainSession_def ann_def bob_def trim_def is_ws_def)
  have n: "map name (players plainSession) = [''Ann'', ''Bob'']"
    "map score (players plainSession) = [120, 3]"
    by (simp_all add: plainSession_def ann_def bob_def)
  from url_round_trip_resets_scores [of plainSession] h n show ?thesis
    by auto
qed

text \<open>The claim as it was stated fails for a name with a comma: the one player
  \<open>Smith, Jo\<close> with score 7 decodes to the two players \<open>Smith\<close> and \<open>Jo\<close>.\<close>

theorem comma_in_name_counterexample:
  "map name (players commaSession) = [''Smith, Jo'']
   \<and> map name (the (s_players (the (deserializeFromURL (serializeToURL commaSession)))))
       = [''Smith'', ''Jo'']"
  by (simp add: commaSession_def ann_def newGameState_def serializeToURL_def Let_def
      deserializeFromURL_def get_param_def urlPlayer_def trim_def is_ws_def enumerate_eq_zip
      upt_rec)

section \<open>Restoring a serialized state\<close>

subsection \<open>The restored fields and the id counter\<close>







subsection \<open>Reading back a printed number\<close>













subsection \<open>The round trip and the ids after it\<close>



end
